theory Spec2Isabelle
  imports Main
begin

section \<open>JavaScript values\<close>

text \<open>
  The fields of a notification's content are dynamically typed in the source
  (\<^verbatim>\<open>title\<close> and \<^verbatim>\<open>body\<close> are a string or null, \<^verbatim>\<open>data\<close> is an object or absent).
  They are modelled by the values below. Numbers are restricted to integers; objects are
  association lists in key order.
\<close>

datatype jsval =
    JUndefined
  | JNull
  | JBool bool
  | JNum int
  | JStr string
  | JObj "(string \<times> jsval) list"

text \<open>Truthiness, as used by \<^verbatim>\<open>||\<close> and \<^verbatim>\<open>if\<close>.\<close>

fun truthy :: "jsval \<Rightarrow> bool" where
  "truthy JUndefined = False"
| "truthy JNull = False"
| "truthy (JBool b) = b"
| "truthy (JNum n) = (n \<noteq> 0)"
| "truthy (JStr s) = (s \<noteq> [])"
| "truthy (JObj kvs) = True"

text \<open>\<^verbatim>\<open>a || b\<close>: the left operand when it is truthy, the right one otherwise.\<close>

definition js_or :: "jsval \<Rightarrow> jsval \<Rightarrow> jsval" where
  "js_or a b = (if truthy a then a else b)"

text \<open>\<^verbatim>\<open>a ?? b\<close> on an optional value: \<open>None\<close> stands for null and undefined.\<close>

definition nullish_or :: "'a option \<Rightarrow> 'a option \<Rightarrow> 'a option" where
  "nullish_or a b = (case a of Some x \<Rightarrow> Some x | None \<Rightarrow> b)"

section \<open>Data model\<close>

text \<open>
  A notification as delivered by the notification library:
  \<^verbatim>\<open>notification.request.identifier\<close> and \<^verbatim>\<open>notification.request.content.{title,body,data}\<close>.
\<close>

record notification_content =
  title :: jsval
  body :: jsval
  data :: jsval

record notification_request =
  "identifier" :: string
  content :: notification_content

record notification =
  request :: notification_request

text \<open>
  The object \<^verbatim>\<open>newNotification\<close> built by \<^verbatim>\<open>addToHistory\<close>. Its fields \<^verbatim>\<open>id\<close>,
  \<^verbatim>\<open>title\<close>, \<^verbatim>\<open>body\<close>, \<^verbatim>\<open>data\<close> and \<^verbatim>\<open>timestamp\<close> carry the prefix \<open>item_\<close> here,
  since \<open>id\<close> is a constant of HOL and the other names are fields of the content above.
\<close>

record history_item =
  item_id :: string
  item_title :: jsval
  item_body :: jsval
  item_data :: jsval
  item_timestamp :: string
  rawNotification :: notification

text \<open>The four \<^verbatim>\<open>useState\<close> cells of the component \<^verbatim>\<open>App\<close>.\<close>

record app_state =
  expoPushToken :: string
  notification :: "notification option"
  notificationHistory :: "history_item list"
  errorMsg :: string

definition initial_state :: app_state where
  "initial_state =
     \<lparr>expoPushToken = [], notification = None, notificationHistory = [], errorMsg = []\<rparr>"

section \<open>Effects\<close>

text \<open>
  The calls the component makes to its collaborators (the notification library, the
  clipboard, the alert dialog), recorded in the order they are made. Logging to the console
  is not recorded.
\<close>

record channel_config =
  channel_name :: string
  importance_max :: bool
  vibrationPattern :: "nat list"
  lightColor :: string

datatype call =
    GetPermissionsAsync
  | RequestPermissionsAsync
  | GetExpoPushTokenAsync "string option"
  | SetNotificationChannelAsync string channel_config
  | ClipboardSetStringAsync string
  | ScheduleNotificationAsync notification_content nat
  | AlertAlert string string

text \<open>
  An asynchronous computation: the calls made so far, and either the message of the error it
  was rejected with (\<open>Inl\<close>) or the value it resolved to (\<open>Inr\<close>).
\<close>

type_synonym 'a io = "call list \<times> (string + 'a)"

definition io_return :: "'a \<Rightarrow> 'a io" where
  "io_return x = ([], Inr x)"

definition io_throw :: "string \<Rightarrow> 'a io" where
  "io_throw msg = ([], Inl msg)"

text \<open>\<^verbatim>\<open>await\<close> of a collaborator's call whose outcome is \<open>answer\<close>.\<close>

definition io_await :: "call \<Rightarrow> string + 'a \<Rightarrow> 'a io" where
  "io_await c answer = ([c], answer)"

text \<open>A synchronous call that returns nothing, such as \<^verbatim>\<open>Alert.alert\<close>.\<close>

definition io_call :: "call \<Rightarrow> unit io" where
  "io_call c = ([c], Inr ())"

text \<open>Sequencing: a rejection skips the rest of the function body.\<close>

definition io_bind :: "'a io \<Rightarrow> ('a \<Rightarrow> 'b io) \<Rightarrow> 'b io" where
  "io_bind m f =
     (case m of
        (tr, Inl e) \<Rightarrow> (tr, Inl e)
      | (tr, Inr x) \<Rightarrow> (case f x of (tr', r) \<Rightarrow> (tr @ tr', r)))"

section \<open>The history of notifications\<close>

text \<open>
  \<^verbatim>\<open>addToHistory\<close> (lines 75 to 86). The reading of the clock,
  \<^verbatim>\<open>new Date().toLocaleString()\<close>, is the parameter \<open>now\<close>.
\<close>

definition newNotification :: "notification \<Rightarrow> string \<Rightarrow> history_item" where
  "newNotification n now =
     \<lparr>item_id = identifier (request n),
      item_title = js_or (title (content (request n))) (JStr ''No Title''),
      item_body = js_or (body (content (request n))) (JStr ''No Body''),
      item_data = js_or (data (content (request n))) (JObj []),
      item_timestamp = now,
      rawNotification = n\<rparr>"

definition addToHistory :: "notification \<Rightarrow> string \<Rightarrow> app_state \<Rightarrow> app_state" where
  "addToHistory n now s =
     s\<lparr>notificationHistory := newNotification n now # take 9 (notificationHistory s)\<rparr>"

text \<open>\<^verbatim>\<open>clearHistory\<close> (lines 89 to 93).\<close>

definition clearHistory :: "app_state \<Rightarrow> call list \<times> app_state" where
  "clearHistory s =
     (fst (io_call (AlertAlert ''Success'' ''Notification history cleared'')),
      s\<lparr>notificationHistory := [], notification := None\<rparr>)"

text \<open>
  The two listeners registered in \<^verbatim>\<open>useEffect\<close> (lines 46 to 66): the first receives the
  notification itself, the second a response whose field \<^verbatim>\<open>notification\<close> is passed here.
\<close>

definition notificationListener :: "notification \<Rightarrow> string \<Rightarrow> app_state \<Rightarrow> app_state" where
  "notificationListener n now s = addToHistory n now (s\<lparr>notification := Some n\<rparr>)"

definition responseListener :: "notification \<Rightarrow> string \<Rightarrow> app_state \<Rightarrow> app_state" where
  "responseListener n now s = addToHistory n now (s\<lparr>notification := Some n\<rparr>)"

section \<open>Registration\<close>

text \<open>
  What the environment answers during \<^verbatim>\<open>registerForPushNotificationsAsync\<close>:
  \<^verbatim>\<open>Device.isDevice\<close>, \<^verbatim>\<open>Platform.OS\<close>, the two project identifiers read from
  \<^verbatim>\<open>Constants\<close>, and the outcome of each awaited call (the field \<^verbatim>\<open>status\<close> of the
  permission answers, the field \<^verbatim>\<open>data\<close> of the token answer).
\<close>

record env =
  isDevice :: bool
  platformOS :: string
  expoConfigProjectId :: "string option"
  easConfigProjectId :: "string option"
  getPermissionsAsync :: "string + string"
  requestPermissionsAsync :: "string + string"
  getExpoPushTokenAsync :: "string + string"
  setNotificationChannelAsync :: "string + unit"

definition emulator_error :: string where
  "emulator_error =
     ''Push notifications are not available on emulators. Please use a physical device.''"

definition permission_error :: string where
  "permission_error = ''Permission not granted for push notifications!''"

definition default_channel :: channel_config where
  "default_channel =
     \<lparr>channel_name = ''default'', importance_max = True,
      vibrationPattern = [0, 250, 250, 250], lightColor = ''#FF231F7C''\<rparr>"

text \<open>\<^verbatim>\<open>registerForPushNotificationsAsync\<close> (lines 96 to 137).\<close>

definition registerForPushNotificationsAsync :: "env \<Rightarrow> string io" where
  "registerForPushNotificationsAsync e =
     (if \<not> isDevice e then io_throw emulator_error
      else
        io_bind (io_await GetPermissionsAsync (getPermissionsAsync e)) (\<lambda>existingStatus.
        io_bind (if existingStatus \<noteq> ''granted''
                 then io_await RequestPermissionsAsync (requestPermissionsAsync e)
                 else io_return existingStatus) (\<lambda>finalStatus.
        if finalStatus \<noteq> ''granted'' then io_throw permission_error
        else
          io_bind (io_await
                     (GetExpoPushTokenAsync
                        (nullish_or (expoConfigProjectId e) (easConfigProjectId e)))
                     (getExpoPushTokenAsync e)) (\<lambda>token.
          io_bind (if platformOS e = ''android''
                   then io_await (SetNotificationChannelAsync ''default'' default_channel)
                          (setNotificationChannelAsync e)
                   else io_return ()) (\<lambda>_.
          io_return token)))))"

text \<open>
  The effect run once when the component is mounted (lines 35 to 43): the token is stored
  when the registration resolves, the error's message when it is rejected.
\<close>

definition initialize :: "env \<Rightarrow> app_state \<Rightarrow> call list \<times> app_state" where
  "initialize e s =
     (case registerForPushNotificationsAsync e of
        (tr, Inr token) \<Rightarrow> (tr, s\<lparr>expoPushToken := token\<rparr>)
      | (tr, Inl msg) \<Rightarrow> (tr, s\<lparr>errorMsg := msg\<rparr>))"

section \<open>Clipboard and local test notification\<close>

text \<open>
  \<^verbatim>\<open>copyTokenToClipboard\<close> (lines 140 to 150). The parameter is the outcome of
  \<^verbatim>\<open>Clipboard.setStringAsync\<close>. The function has no \<^verbatim>\<open>return\<close> statement, so it resolves
  to \<^verbatim>\<open>undefined\<close> on both branches.
\<close>

definition copy_success_text :: string where
  "copy_success_text =
     ''Token copied to clipboard!'' @ [CHR 0x0A, CHR 0x0A]
       @ ''You can now paste it in Firebase Console.''"

definition copyTokenToClipboard :: "string + unit \<Rightarrow> app_state \<Rightarrow> jsval io" where
  "copyTokenToClipboard answer s =
     (if expoPushToken s \<noteq> []
      then io_bind (io_await (ClipboardSetStringAsync (expoPushToken s)) answer) (\<lambda>_.
           io_bind (io_call (AlertAlert ''Success'' copy_success_text)) (\<lambda>_.
           io_return JUndefined))
      else io_bind (io_call (AlertAlert ''Error'' ''No token available to copy'')) (\<lambda>_.
           io_return JUndefined))"

text \<open>
  \<^verbatim>\<open>sendTestNotification\<close> (lines 153 to 163). The title ends with the envelope sign
  U+1F4EC, written here as its four bytes in UTF-8. The parameter is the outcome of
  \<^verbatim>\<open>Notifications.scheduleNotificationAsync\<close>.
\<close>

definition test_content :: notification_content where
  "test_content =
     \<lparr>title = JStr (''Test Notification '' @ [CHR 0xF0, CHR 0x9F, CHR 0x93, CHR 0xAC]),
      body = JStr ''This is a local test notification!'',
      data = JObj [(''testData'', JStr ''Test notification data'')]\<rparr>"

definition sendTestNotification :: "string + unit \<Rightarrow> app_state \<Rightarrow> jsval io \<times> app_state" where
  "sendTestNotification answer s =
     (io_bind (io_await (ScheduleNotificationAsync test_content 2) answer) (\<lambda>_.
      io_bind (io_call (AlertAlert ''Scheduled'' ''Test notification will appear in 2 seconds''))
        (\<lambda>_.
      io_return JUndefined)),
      s)"

section \<open>Runs of the component\<close>

text \<open>
  The callbacks that can fire any number of times after the component is mounted: the two
  listeners (with the reading of the clock at that moment) and the three buttons (with the
  outcome of the awaited call, where there is one).
\<close>

datatype event =
    NotificationReceived notification string
  | NotificationResponseReceived notification string
  | ClearPressed
  | CopyPressed "string + unit"
  | SendTestPressed "string + unit"

fun step :: "app_state \<Rightarrow> event \<Rightarrow> call list \<times> app_state" where
  "step s (NotificationReceived n now) = ([], notificationListener n now s)"
| "step s (NotificationResponseReceived n now) = ([], responseListener n now s)"
| "step s ClearPressed = clearHistory s"
| "step s (CopyPressed answer) = (fst (copyTokenToClipboard answer s), s)"
| "step s (SendTestPressed answer) =
     (fst (fst (sendTestNotification answer s)), snd (sendTestNotification answer s))"

fun run :: "app_state \<Rightarrow> event list \<Rightarrow> call list \<times> app_state" where
  "run s [] = ([], s)"
| "run s (ev # evs) =
     (case step s ev of (tr, s') \<Rightarrow> (case run s' evs of (tr', s'') \<Rightarrow> (tr @ tr', s'')))"

text \<open>
  A session: events \<open>before\<close> fire while the registration is pending, then the registration
  settles with the answers \<open>e\<close>, then events \<open>after\<close> fire.
\<close>

definition session :: "event list \<Rightarrow> env \<Rightarrow> event list \<Rightarrow> call list \<times> app_state" where
  "session before e after =
     (case run initial_state before of (tr1, s1) \<Rightarrow>
      case initialize e s1 of (tr2, s2) \<Rightarrow>
      case run s2 after of (tr3, s3) \<Rightarrow> (tr1 @ tr2 @ tr3, s3))"

text \<open>A sequence of \<^verbatim>\<open>addToHistory\<close> calls, oldest first.\<close>

definition recordAll :: "(notification \<times> string) list \<Rightarrow> app_state \<Rightarrow> app_state" where
  "recordAll evs s = foldl (\<lambda>s' (n, now). addToHistory n now s') s evs"

text \<open>The current head of the history, if any.\<close>

definition latest :: "app_state \<Rightarrow> history_item option" where
  "latest s = (case notificationHistory s of [] \<Rightarrow> None | x # _ \<Rightarrow> Some x)"

text \<open>
  The notifications received since the last press of the clear button, oldest first, each
  with the reading of the clock at its receipt.
\<close>

fun received_since_clear :: "event list \<Rightarrow> (notification \<times> string) list \<Rightarrow> (notification \<times> string) list" where
  "received_since_clear [] acc = acc"
| "received_since_clear (NotificationReceived n now # evs) acc =
     received_since_clear evs (acc @ [(n, now)])"
| "received_since_clear (NotificationResponseReceived n now # evs) acc =
     received_since_clear evs (acc @ [(n, now)])"
| "received_since_clear (ClearPressed # evs) acc = received_since_clear evs []"
| "received_since_clear (CopyPressed a # evs) acc = received_since_clear evs acc"
| "received_since_clear (SendTestPressed a # evs) acc = received_since_clear evs acc"

text \<open>
  The entries made from the last ten of a sequence of received notifications (oldest first),
  most recent first.
\<close>

definition last_ten :: "(notification \<times> string) list \<Rightarrow> history_item list" where
  "last_ten evs = take 10 (rev (map (\<lambda>(n, now). newNotification n now) evs))"

text \<open>The calls that \<^verbatim>\<open>registerForPushNotificationsAsync\<close> makes to obtain a token.\<close>

fun is_registration_call :: "call \<Rightarrow> bool" where
  "is_registration_call GetPermissionsAsync = True"
| "is_registration_call RequestPermissionsAsync = True"
| "is_registration_call (GetExpoPushTokenAsync pid) = True"
| "is_registration_call c = False"

text \<open>A value that is neither \<^verbatim>\<open>undefined\<close> nor \<^verbatim>\<open>null\<close>.\<close>

fun present :: "jsval \<Rightarrow> bool" where
  "present JUndefined = False"
| "present JNull = False"
| "present v = True"

section \<open>Concrete inputs\<close>

definition emulator_env :: env where
  "emulator_env =
     \<lparr>isDevice = False, platformOS = ''android'',
      expoConfigProjectId = None, easConfigProjectId = None,
      getPermissionsAsync = Inr ''granted'', requestPermissionsAsync = Inr ''granted'',
      getExpoPushTokenAsync = Inr ''ExponentPushToken[abc]'',
      setNotificationChannelAsync = Inr ()\<rparr>"

definition denied_env :: env where
  "denied_env =
     \<lparr>isDevice = True, platformOS = ''android'',
      expoConfigProjectId = Some ''project-1'', easConfigProjectId = None,
      getPermissionsAsync = Inr ''undetermined'', requestPermissionsAsync = Inr ''denied'',
      getExpoPushTokenAsync = Inr ''ExponentPushToken[abc]'',
      setNotificationChannelAsync = Inr ()\<rparr>"

definition ready_state :: app_state where
  "ready_state = initial_state\<lparr>expoPushToken := ''ExponentPushToken[abc]''\<rparr>"

definition untitled_notification :: notification where
  "untitled_notification =
     \<lparr>request = \<lparr>identifier = ''n1'',
        content = \<lparr>title = JNull, body = JStr [], data = JUndefined\<rparr>\<rparr>\<rparr>"

section \<open>Auxiliary facts\<close>

lemmas io_defs = io_return_def io_throw_def io_await_def io_call_def io_bind_def

lemma history_addToHistory:
  "notificationHistory (addToHistory n now s) =
     newNotification n now # take 9 (notificationHistory s)"
  by (simp add: addToHistory_def)

lemma cons_take9_take10: "x # take 9 (take 10 ys) = take 10 (x # ys)"
  by simp

lemma recordAll_snoc: "recordAll (evs @ [(n, now)]) s = addToHistory n now (recordAll evs s)"
  by (simp add: recordAll_def)

lemma last_ten_snoc:
  "last_ten (evs @ [(n, now)]) = newNotification n now # take 9 (last_ten evs)"
  by (simp add: last_ten_def)

lemma history_recordAll:
  "notificationHistory s = last_ten acc \<Longrightarrow>
   notificationHistory (recordAll evs s) = last_ten (acc @ evs)"
proof (induction evs rule: rev_induct)
  case Nil
  then show ?case by (simp add: recordAll_def)
next
  case (snoc x xs)
  obtain n now where x: "x = (n, now)" by (cases x)
  have "notificationHistory (recordAll (xs @ [x]) s) =
          newNotification n now # take 9 (last_ten (acc @ xs))"
    using snoc by (simp only: x recordAll_snoc history_addToHistory)
  also have "\<dots> = last_ten ((acc @ xs) @ [(n, now)])"
    by (simp only: last_ten_snoc)
  finally show ?case by (simp add: x)
qed

lemma length_last_ten: "length (last_ten evs) = min 10 (length evs)"
  by (simp add: last_ten_def min.commute)

lemma step_history:
  "notificationHistory s = last_ten acc \<Longrightarrow>
   notificationHistory (snd (step s ev)) = last_ten (received_since_clear [ev] acc)"
  by (cases ev)
     (simp_all add: notificationListener_def responseListener_def clearHistory_def
        sendTestNotification_def history_addToHistory last_ten_snoc, simp add: last_ten_def)

lemma snd_run_Cons: "snd (run s (ev # evs)) = snd (run (snd (step s ev)) evs)"
  by (simp split: prod.splits)

lemma fst_run_Cons: "fst (run s (ev # evs)) = fst (step s ev) @ fst (run (snd (step s ev)) evs)"
  by (simp split: prod.splits)

lemma received_since_clear_Cons:
  "received_since_clear (ev # evs) acc = received_since_clear evs (received_since_clear [ev] acc)"
  by (cases ev) simp_all

lemma received_since_clear_append:
  "received_since_clear (xs @ ys) acc = received_since_clear ys (received_since_clear xs acc)"
proof (induction xs arbitrary: acc)
  case Nil
  show ?case by simp
next
  case (Cons x xs)
  show ?case
    using Cons.IH [of "received_since_clear [x] acc"]
      received_since_clear_Cons [of x "xs @ ys" acc] received_since_clear_Cons [of x xs acc]
    by simp
qed

lemma run_history:
  "notificationHistory s = last_ten acc \<Longrightarrow>
   notificationHistory (snd (run s evs)) = last_ten (received_since_clear evs acc)"
proof (induction evs arbitrary: s acc)
  case Nil
  then show ?case by simp
next
  case (Cons ev evs)
  have "notificationHistory (snd (step s ev)) = last_ten (received_since_clear [ev] acc)"
    using Cons.prems by (rule step_history)
  then have "notificationHistory (snd (run (snd (step s ev)) evs)) =
               last_ten (received_since_clear evs (received_since_clear [ev] acc))"
    by (rule Cons.IH)
  then show ?case
    by (simp only: snd_run_Cons received_since_clear_Cons [of ev evs acc])
qed

lemma history_initialize: "notificationHistory (snd (initialize e s)) = notificationHistory s"
  by (simp add: initialize_def split: prod.splits sum.splits)

lemma notification_initialize: "notification (snd (initialize e s)) = notification s"
  by (simp add: initialize_def split: prod.splits sum.splits)

lemma snd_session:
  "snd (session before e after) =
     snd (run (snd (initialize e (snd (run initial_state before)))) after)"
  by (simp add: session_def split: prod.splits)

lemma history_initial: "notificationHistory initial_state = last_ten []"
  by (simp add: initial_state_def last_ten_def)

lemma session_history:
  "notificationHistory (snd (session before e after)) =
     last_ten (received_since_clear (before @ after) [])"
proof -
  have "notificationHistory (snd (run initial_state before)) =
          last_ten (received_since_clear before [])"
    using history_initial by (rule run_history)
  then have "notificationHistory (snd (initialize e (snd (run initial_state before)))) =
          last_ten (received_since_clear before [])"
    by (simp only: history_initialize)
  then have "notificationHistory (snd (session before e after)) =
          last_ten (received_since_clear after (received_since_clear before []))"
    unfolding snd_session by (rule run_history)
  then show ?thesis by (simp only: received_since_clear_append)
qed

lemma step_latest:
  "notification s = map_option rawNotification (latest s) \<Longrightarrow>
   notification (snd (step s ev)) = map_option rawNotification (latest (snd (step s ev)))"
  by (cases ev)
     (simp_all add: notificationListener_def responseListener_def clearHistory_def
        sendTestNotification_def addToHistory_def latest_def newNotification_def)

lemma run_latest:
  "notification s = map_option rawNotification (latest s) \<Longrightarrow>
   notification (snd (run s evs)) = map_option rawNotification (latest (snd (run s evs)))"
proof (induction evs arbitrary: s)
  case Nil
  then show ?case by simp
next
  case (Cons ev evs)
  from Cons.prems have "notification (snd (step s ev)) =
      map_option rawNotification (latest (snd (step s ev)))"
    by (rule step_latest)
  then show ?case unfolding snd_run_Cons by (rule Cons.IH)
qed

lemma initial_latest:
  "notification initial_state = map_option rawNotification (latest initial_state)"
  by (simp add: initial_state_def latest_def)

lemma initialize_latest:
  "notification s = map_option rawNotification (latest s) \<Longrightarrow>
   notification (snd (initialize e s)) = map_option rawNotification (latest (snd (initialize e s)))"
  by (simp add: latest_def history_initialize notification_initialize)

lemma session_latest:
  "notification (snd (session before e after)) =
     map_option rawNotification (latest (snd (session before e after)))"
  unfolding snd_session
  by (intro run_latest initialize_latest initial_latest)

lemma latest_None: "latest s = None \<longleftrightarrow> notificationHistory s = []"
  by (simp add: latest_def split: list.splits)

lemma step_registration:
  "expoPushToken (snd (step s ev)) = expoPushToken s \<and>
   errorMsg (snd (step s ev)) = errorMsg s \<and>
   list_all (\<lambda>c. \<not> is_registration_call c) (fst (step s ev))"
  by (cases ev)
     (simp_all add: notificationListener_def responseListener_def clearHistory_def
        sendTestNotification_def copyTokenToClipboard_def addToHistory_def io_defs
        split: sum.splits)

lemma run_registration:
  "expoPushToken (snd (run s evs)) = expoPushToken s \<and>
   errorMsg (snd (run s evs)) = errorMsg s \<and>
   list_all (\<lambda>c. \<not> is_registration_call c) (fst (run s evs))"
proof (induction evs arbitrary: s)
  case Nil
  show ?case by simp
next
  case (Cons ev evs)
  show ?case
    using Cons.IH [of "snd (step s ev)"] step_registration [of s ev]
    by (simp only: snd_run_Cons fst_run_Cons list_all_append)
qed

lemma truthy_js_or: "truthy b \<Longrightarrow> truthy (js_or a b)"
  by (simp add: js_or_def)

lemma truthy_present: "truthy v \<Longrightarrow> present v"
  by (cases v) simp_all

lemma newNotification_truthy:
  "truthy (item_title (newNotification n now)) \<and>
   truthy (item_body (newNotification n now)) \<and>
   truthy (item_data (newNotification n now))"
  by (simp add: newNotification_def truthy_js_or)

lemma in_last_ten:
  "x \<in> set (last_ten evs) \<Longrightarrow> \<exists>n now. x = newNotification n now"
  by (fastforce simp: last_ten_def dest!: in_set_takeD)

lemma fst_session:
  "fst (session before e after) =
     fst (run initial_state before)
     @ fst (initialize e (snd (run initial_state before)))
     @ fst (run (snd (initialize e (snd (run initial_state before)))) after)"
  by (simp add: session_def split: prod.splits)

lemma register_emulator:
  "\<not> isDevice e \<Longrightarrow> registerForPushNotificationsAsync e = ([], Inl emulator_error)"
  by (simp add: registerForPushNotificationsAsync_def io_throw_def)

lemma register_denied:
  "isDevice e \<Longrightarrow> getPermissionsAsync e = Inr st \<Longrightarrow> st \<noteq> ''granted'' \<Longrightarrow>
   requestPermissionsAsync e = Inr st' \<Longrightarrow> st' \<noteq> ''granted'' \<Longrightarrow>
   registerForPushNotificationsAsync e =
     ([GetPermissionsAsync, RequestPermissionsAsync], Inl permission_error)"
  by (simp add: registerForPushNotificationsAsync_def io_defs)

section \<open>The claims\<close>

text \<open>
  Claim C1. Starting from an empty history, after any sequence of \<^verbatim>\<open>addToHistory\<close> calls the
  history holds the entries of the last ten notifications recorded, most recent first, and
  its length is the smaller of ten and the number of calls. In particular, after recording
  eleven notifications \<open>a\<close>, \<open>b\<close>, ..., \<open>k\<close> it holds the ten entries of \<open>k\<close> down to \<open>b\<close>:
  \<open>a\<close> has been evicted and \<open>k\<close> is at the head.
\<close>

theorem record_keeps_last_ten:
  "notificationHistory (recordAll evs (s\<lparr>notificationHistory := []\<rparr>)) =
     take 10 (rev (map (\<lambda>(n, now). newNotification n now) evs))
   \<and> length (notificationHistory (recordAll evs (s\<lparr>notificationHistory := []\<rparr>))) =
     min 10 (length evs)
   \<and> notificationHistory
       (recordAll [(a, ta), (b, tb), (c, tc), (d, td), (e, te), (f, tf), (g, tg), (h, th),
                   (i, ti), (j, tj), (k, tk)] (s\<lparr>notificationHistory := []\<rparr>)) =
     [newNotification k tk, newNotification j tj, newNotification i ti, newNotification h th,
      newNotification g tg, newNotification f tf, newNotification e te, newNotification d td,
      newNotification c tc, newNotification b tb]"
proof -
  have start: "notificationHistory (s\<lparr>notificationHistory := []\<rparr>) = last_ten []"
    by (simp add: last_ten_def)
  have all: "notificationHistory (recordAll xs (s\<lparr>notificationHistory := []\<rparr>)) = last_ten xs"
    for xs
    using history_recordAll [OF start, of xs] by simp
  have "notificationHistory (recordAll evs (s\<lparr>notificationHistory := []\<rparr>)) =
          take 10 (rev (map (\<lambda>(n, now). newNotification n now) evs))"
    by (simp only: all last_ten_def)
  moreover have "length (notificationHistory (recordAll evs (s\<lparr>notificationHistory := []\<rparr>))) =
          min 10 (length evs)"
    by (simp only: all length_last_ten)
  moreover have "notificationHistory
       (recordAll [(a, ta), (b, tb), (c, tc), (d, td), (e, te), (f, tf), (g, tg), (h, th),
                   (i, ti), (j, tj), (k, tk)] (s\<lparr>notificationHistory := []\<rparr>)) =
     [newNotification k tk, newNotification j tj, newNotification i ti, newNotification h th,
      newNotification g tg, newNotification f tf, newNotification e te, newNotification d td,
      newNotification c tc, newNotification b tb]"
    by (simp add: all last_ten_def)
  ultimately show ?thesis by (intro conjI)
qed

text \<open>
  Claim C2. In every state reached from the initial state by any sequence of events
  (notifications received or tapped, presses of the clear, copy and test buttons), with the
  registration settling at any point or not at all, the history has at most ten entries, and
  it lists the notifications received since the last clearing in the order of their receipt,
  most recent first.
\<close>

theorem history_bounded_and_ordered:
  "length (notificationHistory (snd (run initial_state evs))) \<le> 10
   \<and> notificationHistory (snd (run initial_state evs)) =
       last_ten (received_since_clear evs [])
   \<and> length (notificationHistory (snd (session before e after))) \<le> 10
   \<and> notificationHistory (snd (session before e after)) =
       last_ten (received_since_clear (before @ after) [])"
proof -
  have r: "notificationHistory (snd (run initial_state evs)) =
             last_ten (received_since_clear evs [])"
    using history_initial by (rule run_history)
  have "length (last_ten xs) \<le> 10" for xs
    by (simp add: length_last_ten)
  then show ?thesis
    by (simp only: r session_history simp_thms)
qed

text \<open>
  Claim C3. From every state, \<^verbatim>\<open>clearHistory\<close> yields an empty history and no latest
  notification; clearing twice gives the same state (and the same alert) as clearing once.
\<close>

theorem clearHistory_resets:
  "notificationHistory (snd (clearHistory s)) = []
   \<and> notification (snd (clearHistory s)) = None
   \<and> latest (snd (clearHistory s)) = None
   \<and> snd (clearHistory (snd (clearHistory s))) = snd (clearHistory s)
   \<and> clearHistory (snd (clearHistory s)) = clearHistory s"
  by (simp add: clearHistory_def latest_def)

text \<open>
  Claim C4. In every reachable state the latest notification is the notification of the
  entry at the head of the history, and it is absent exactly when the history is empty.
  After every non-empty sequence of recordings the head is the entry of the notification
  recorded last, and each listener sets the latest notification to the one it records.
\<close>

theorem latest_is_head:
  "notification (snd (session before e after)) =
     map_option rawNotification (latest (snd (session before e after)))
   \<and> notification (snd (run initial_state evs)) =
     map_option rawNotification (latest (snd (run initial_state evs)))
   \<and> (notification (snd (session before e after)) = None \<longleftrightarrow>
        notificationHistory (snd (session before e after)) = [])
   \<and> (notification (snd (run initial_state evs)) = None \<longleftrightarrow>
        notificationHistory (snd (run initial_state evs)) = [])
   \<and> latest (recordAll (recs @ [(n, now)]) s) = Some (newNotification n now)
   \<and> notification (snd (step s (NotificationReceived n now))) = Some n
   \<and> notification (snd (step s (NotificationResponseReceived n now))) = Some n
   \<and> latest (snd (step s (NotificationReceived n now))) = Some (newNotification n now)
   \<and> latest (snd (step s (NotificationResponseReceived n now))) = Some (newNotification n now)
   \<and> rawNotification (newNotification n now) = n
   \<and> (latest s = None \<longleftrightarrow> notificationHistory s = [])"
proof -
  have a: "notification (snd (run initial_state evs)) =
     map_option rawNotification (latest (snd (run initial_state evs)))"
    using initial_latest by (rule run_latest)
  have b: "(notification t = None \<longleftrightarrow> notificationHistory t = [])"
    if "notification t = map_option rawNotification (latest t)" for t
    using that by (simp add: latest_None)
  have c: "latest (recordAll (recs @ [(n, now)]) s) = Some (newNotification n now)"
    by (simp add: recordAll_snoc latest_def history_addToHistory)
  have d: "notification (snd (step s (NotificationReceived n now))) = Some n"
    "notification (snd (step s (NotificationResponseReceived n now))) = Some n"
    "latest (snd (step s (NotificationReceived n now))) = Some (newNotification n now)"
    "latest (snd (step s (NotificationResponseReceived n now))) = Some (newNotification n now)"
    "rawNotification (newNotification n now) = n"
    by (simp_all add: notificationListener_def responseListener_def addToHistory_def latest_def
        newNotification_def)
  show ?thesis
    using session_latest [of before e after] a b [OF session_latest [of before e after]] b [OF a]
      c d latest_None [of s]
    by (intro conjI)
qed

text \<open>An instance of the statement above at a concrete input.\<close>

theorem latest_is_head_witness:
  "notification (snd (run initial_state
      [NotificationReceived untitled_notification ''10:00'', ClearPressed])) = None
   \<and> notificationHistory (snd (run initial_state
      [NotificationReceived untitled_notification ''10:00'', ClearPressed])) = []
   \<and> notification (snd (run initial_state
      [ClearPressed, NotificationReceived untitled_notification ''10:00''])) =
      Some untitled_notification
   \<and> latest (snd (run initial_state
      [ClearPressed, NotificationReceived untitled_notification ''10:00''])) =
      Some (newNotification untitled_notification ''10:00'')"
proof -
  have a: "notificationHistory (snd (run initial_state
      [NotificationReceived untitled_notification ''10:00'', ClearPressed])) = []"
    by (simp add: clearHistory_def)
  have b: "latest (snd (run initial_state
      [ClearPressed, NotificationReceived untitled_notification ''10:00''])) =
      Some (newNotification untitled_notification ''10:00'')"
    by (simp add: clearHistory_def notificationListener_def addToHistory_def latest_def
        io_call_def)
  show ?thesis
    using a b
      latest_is_head [where evs = "[NotificationReceived untitled_notification ''10:00'',
        ClearPressed]"]
      latest_is_head [where evs = "[ClearPressed,
        NotificationReceived untitled_notification ''10:00'']"]
    by (simp add: newNotification_def)
qed

text \<open>
  Claim C5. When \<^verbatim>\<open>Device.isDevice\<close> is false, the registration is rejected with the message
  about emulators without any call being made: the permission is neither queried nor
  requested. The component stores the message, keeps the token empty, and no call of the
  registration occurs anywhere in the session.
\<close>

theorem emulator_is_unsupported:
  "\<not> isDevice e \<Longrightarrow>
     registerForPushNotificationsAsync e = ([], Inl emulator_error)
     \<and> initialize e s = ([], s\<lparr>errorMsg := emulator_error\<rparr>)
     \<and> expoPushToken (snd (initialize e s)) = expoPushToken s
     \<and> GetPermissionsAsync \<notin> set (fst (initialize e s))
     \<and> RequestPermissionsAsync \<notin> set (fst (initialize e s))
     \<and> list_all (\<lambda>c. \<not> is_registration_call c) (fst (session before e after))
     \<and> errorMsg (snd (session before e after)) = emulator_error
     \<and> expoPushToken (snd (session before e after)) = []"
proof -
  assume dev: "\<not> isDevice e"
  have i: "initialize e t = ([], t\<lparr>errorMsg := emulator_error\<rparr>)" for t
    by (simp add: initialize_def register_emulator [OF dev])
  have "list_all (\<lambda>c. \<not> is_registration_call c) (fst (session before e after))"
    using run_registration by (simp add: fst_session i)
  moreover have "errorMsg (snd (session before e after)) = emulator_error"
    "expoPushToken (snd (session before e after)) = []"
    by (simp_all add: snd_session i run_registration initial_state_def)
  ultimately show ?thesis
    by (simp add: i register_emulator [OF dev])
qed

text \<open>An instance of the statement above at a concrete input.\<close>

theorem emulator_is_unsupported_witness:
  "\<not> isDevice emulator_env
   \<and> initialize emulator_env initial_state = ([], initial_state\<lparr>errorMsg := emulator_error\<rparr>)
   \<and> list_all (\<lambda>c. \<not> is_registration_call c)
        (fst (session [] emulator_env [CopyPressed (Inr ())]))"
proof -
  have h: "\<not> isDevice emulator_env"
    by (simp add: emulator_env_def)
  show ?thesis
    using h emulator_is_unsupported [OF h, where s = initial_state and before = "[]"
        and after = "[CopyPressed (Inr ())]"]
    by simp
qed

text \<open>
  Claim C6. On a physical device, when the permission is not granted already and the request
  for it is answered with a status other than \<^verbatim>\<open>granted\<close>, the registration is rejected with
  the message about the permission after exactly the query and the request: no token is
  asked for. The outcome is final: whatever events follow, the token stays unset, the message
  stays, and no call of the registration is made again.
\<close>

theorem denied_is_terminal:
  "isDevice e \<Longrightarrow> getPermissionsAsync e = Inr st \<Longrightarrow> st \<noteq> ''granted'' \<Longrightarrow>
   requestPermissionsAsync e = Inr st' \<Longrightarrow> st' \<noteq> ''granted'' \<Longrightarrow>
     registerForPushNotificationsAsync e =
       ([GetPermissionsAsync, RequestPermissionsAsync], Inl permission_error)
     \<and> initialize e s =
       ([GetPermissionsAsync, RequestPermissionsAsync], s\<lparr>errorMsg := permission_error\<rparr>)
     \<and> GetExpoPushTokenAsync pid \<notin> set (fst (initialize e s))
     \<and> expoPushToken (snd (run (snd (initialize e s)) evs)) = expoPushToken s
     \<and> errorMsg (snd (run (snd (initialize e s)) evs)) = permission_error
     \<and> list_all (\<lambda>c. \<not> is_registration_call c) (fst (run (snd (initialize e s)) evs))
     \<and> GetExpoPushTokenAsync pid \<notin> set (fst (session before e after))
     \<and> expoPushToken (snd (session before e after)) = []
     \<and> errorMsg (snd (session before e after)) = permission_error"
proof -
  assume h: "isDevice e" "getPermissionsAsync e = Inr st" "st \<noteq> ''granted''"
    "requestPermissionsAsync e = Inr st'" "st' \<noteq> ''granted''"
  note reg = register_denied [OF h]
  have i: "initialize e t =
      ([GetPermissionsAsync, RequestPermissionsAsync], t\<lparr>errorMsg := permission_error\<rparr>)" for t
    by (simp add: initialize_def reg)
  have no_token: "GetExpoPushTokenAsync pid \<notin> set tr"
    if "list_all (\<lambda>c. \<not> is_registration_call c) tr" for tr
    using that by (auto simp: list_all_iff)
  have "GetExpoPushTokenAsync pid \<notin> set (fst (session before e after))"
    using no_token [OF conjunct2 [OF conjunct2 [OF run_registration]]]
    by (simp add: fst_session i)
  moreover have "expoPushToken (snd (session before e after)) = []"
    "errorMsg (snd (session before e after)) = permission_error"
    by (simp_all add: snd_session i run_registration initial_state_def)
  ultimately show ?thesis
    by (simp add: i reg run_registration)
qed

text \<open>An instance of the statement above at a concrete input.\<close>

theorem denied_is_terminal_witness:
  "isDevice denied_env
   \<and> getPermissionsAsync denied_env = Inr ''undetermined'' \<and> ''undetermined'' \<noteq> ''granted''
   \<and> requestPermissionsAsync denied_env = Inr ''denied'' \<and> ''denied'' \<noteq> ''granted''
   \<and> initialize denied_env initial_state =
       ([GetPermissionsAsync, RequestPermissionsAsync],
        initial_state\<lparr>errorMsg := permission_error\<rparr>)
   \<and> GetExpoPushTokenAsync (Some ''project-1'') \<notin> set (fst (initialize denied_env initial_state))
   \<and> expoPushToken (snd (run (snd (initialize denied_env initial_state))
        [CopyPressed (Inr ())])) = []"
proof -
  have h: "isDevice denied_env" "getPermissionsAsync denied_env = Inr ''undetermined''"
    "''undetermined'' \<noteq> ''granted''" "requestPermissionsAsync denied_env = Inr ''denied''"
    "''denied'' \<noteq> ''granted''"
    by (simp_all add: denied_env_def)
  show ?thesis
    using h denied_is_terminal [OF h, where s = initial_state and pid = "Some ''project-1''"
        and evs = "[CopyPressed (Inr ())]" and before = "[]" and after = "[]"]
    by (simp add: initial_state_def)
qed

text \<open>
  Claim C7, as stated, fails: with a token present and the clipboard call resolved,
  \<^verbatim>\<open>copyTokenToClipboard\<close> resolves to \<^verbatim>\<open>undefined\<close>, not to \<^verbatim>\<open>true\<close>.
\<close>

theorem copyTokenToClipboard_returns_undefined:
  "snd (copyTokenToClipboard (Inr ())
          (initial_state\<lparr>expoPushToken := ''ExponentPushToken[abc]''\<rparr>)) = Inr JUndefined
   \<and> snd (copyTokenToClipboard (Inr ())
          (initial_state\<lparr>expoPushToken := ''ExponentPushToken[abc]''\<rparr>)) \<noteq> Inr (JBool True)"
  by (simp add: copyTokenToClipboard_def io_defs initial_state_def)

text \<open>
  Claim C7, amended. \<^verbatim>\<open>copyTokenToClipboard\<close> writes to the clipboard if and only if the
  token is non-empty, and what it writes is the token. It returns no value on either path;
  whether a token was available is reported by the alert it shows: \<^verbatim>\<open>Success\<close> after the
  copy when there is a token, \<^verbatim>\<open>Error\<close> with nothing written when there is none.
\<close>

theorem copyTokenToClipboard_alerts:
  "(ClipboardSetStringAsync t \<in> set (fst (copyTokenToClipboard answer s)) \<longleftrightarrow>
      expoPushToken s \<noteq> [] \<and> t = expoPushToken s)
   \<and> (expoPushToken s \<noteq> [] \<longrightarrow>
        copyTokenToClipboard (Inr ()) s =
          ([ClipboardSetStringAsync (expoPushToken s), AlertAlert ''Success'' copy_success_text],
           Inr JUndefined))
   \<and> (expoPushToken s = [] \<longrightarrow>
        copyTokenToClipboard answer s =
          ([AlertAlert ''Error'' ''No token available to copy''], Inr JUndefined))
   \<and> snd (copyTokenToClipboard (Inr ()) s) = Inr JUndefined"
  by (cases answer) (auto simp: copyTokenToClipboard_def io_defs)

text \<open>An instance of the statement above at a concrete input.\<close>

theorem copyTokenToClipboard_alerts_witness:
  "expoPushToken ready_state \<noteq> []
   \<and> copyTokenToClipboard (Inr ()) ready_state =
       ([ClipboardSetStringAsync ''ExponentPushToken[abc]'',
         AlertAlert ''Success'' copy_success_text], Inr JUndefined)
   \<and> expoPushToken initial_state = []
   \<and> copyTokenToClipboard (Inr ()) initial_state =
       ([AlertAlert ''Error'' ''No token available to copy''], Inr JUndefined)"
proof -
  have h: "expoPushToken ready_state \<noteq> []" "expoPushToken initial_state = []"
    "expoPushToken ready_state = ''ExponentPushToken[abc]''"
    by (simp_all add: ready_state_def initial_state_def)
  show ?thesis
    using h copyTokenToClipboard_alerts [where s = ready_state and answer = "Inr ()"]
      copyTokenToClipboard_alerts [where s = initial_state and answer = "Inr ()"]
    by simp
qed

text \<open>
  Claim C8. \<^verbatim>\<open>addToHistory\<close> does not deduplicate: whatever the history holds, the new entry
  is put at its head, so the number of entries with the notification's identifier is one
  more than among the nine entries kept. When the identifier occurs among those, the history
  afterwards holds two entries with the same identifier; so it does when one notification is
  delivered to the foreground listener and then to the tap listener.
\<close>

theorem addToHistory_no_deduplication:
  "notificationHistory (addToHistory n now s) =
     newNotification n now # take 9 (notificationHistory s)
   \<and> item_id (newNotification n now) = identifier (request n)
   \<and> length (filter (\<lambda>x. item_id x = identifier (request n))
        (notificationHistory (addToHistory n now s))) =
      Suc (length (filter (\<lambda>x. item_id x = identifier (request n))
        (take 9 (notificationHistory s))))
   \<and> (identifier (request n) \<in> item_id ` set (take 9 (notificationHistory s)) \<longrightarrow>
        \<not> distinct (map item_id (notificationHistory (addToHistory n now s))))
   \<and> map item_id (notificationHistory (snd (run (s\<lparr>notificationHistory := []\<rparr>)
        [NotificationReceived n now, NotificationResponseReceived n now']))) =
      [identifier (request n), identifier (request n)]"
proof -
  have idn: "item_id (newNotification n t) = identifier (request n)" for t
    by (simp add: newNotification_def)
  have "map item_id (notificationHistory (snd (run (s\<lparr>notificationHistory := []\<rparr>)
        [NotificationReceived n now, NotificationResponseReceived n now']))) =
      [identifier (request n), identifier (request n)]"
    by (simp add: notificationListener_def responseListener_def addToHistory_def idn)
  then show ?thesis
    by (simp add: history_addToHistory idn)
qed

text \<open>An instance of the statement above at a concrete input.\<close>

theorem addToHistory_no_deduplication_witness:
  "identifier (request untitled_notification) \<in>
     item_id ` set (take 9 (notificationHistory
       (addToHistory untitled_notification ''10:00'' initial_state)))
   \<and> \<not> distinct (map item_id (notificationHistory
       (addToHistory untitled_notification ''10:01''
         (addToHistory untitled_notification ''10:00'' initial_state))))"
proof -
  have h: "identifier (request untitled_notification) \<in>
     item_id ` set (take 9 (notificationHistory
       (addToHistory untitled_notification ''10:00'' initial_state)))"
    by (simp add: addToHistory_def newNotification_def)
  show ?thesis
    using h addToHistory_no_deduplication [where n = untitled_notification and now = "''10:01''"
        and s = "addToHistory untitled_notification ''10:00'' initial_state"]
    by blast
qed

text \<open>
  Claim C9. \<^verbatim>\<open>sendTestNotification\<close> first asks the notification library to schedule a
  notification with the fixed title, body and data after two seconds, and leaves the state of
  the component (history, latest notification, token, error message) as it was, whether the
  scheduling resolves or is rejected.
\<close>

theorem sendTestNotification_frame:
  "snd (sendTestNotification answer s) = s
   \<and> snd (step s (SendTestPressed answer)) = s
   \<and> hd (fst (fst (sendTestNotification answer s))) = ScheduleNotificationAsync test_content 2
   \<and> fst (fst (sendTestNotification answer s)) \<noteq> []
   \<and> sendTestNotification (Inr ()) s =
       (([ScheduleNotificationAsync test_content 2,
          AlertAlert ''Scheduled'' ''Test notification will appear in 2 seconds''],
         Inr JUndefined), s)
   \<and> sendTestNotification (Inl err) s =
       (([ScheduleNotificationAsync test_content 2], Inl err), s)
   \<and> title test_content =
       JStr (''Test Notification '' @ [CHR 0xF0, CHR 0x9F, CHR 0x93, CHR 0xAC])
   \<and> body test_content = JStr ''This is a local test notification!''
   \<and> data test_content = JObj [(''testData'', JStr ''Test notification data'')]"
  by (cases answer) (simp_all add: sendTestNotification_def io_defs test_content_def)

text \<open>
  Claim C10. In the entry that \<^verbatim>\<open>addToHistory\<close> stores, the title is \<^verbatim>\<open>No Title\<close> when the
  incoming title is undefined, null or the empty string, the body is \<^verbatim>\<open>No Body\<close> likewise,
  and the data is the empty object when the incoming data is undefined or null. Hence the
  title, body and data of every stored entry, in every reachable history, are neither
  undefined nor null.
\<close>

theorem stored_fields_populated:
  "(title (content (request n)) \<in> {JUndefined, JNull, JStr []} \<longrightarrow>
      item_title (newNotification n now) = JStr ''No Title'')
   \<and> (body (content (request n)) \<in> {JUndefined, JNull, JStr []} \<longrightarrow>
      item_body (newNotification n now) = JStr ''No Body'')
   \<and> (data (content (request n)) \<in> {JUndefined, JNull} \<longrightarrow>
      item_data (newNotification n now) = JObj [])
   \<and> present (item_title (newNotification n now))
   \<and> present (item_body (newNotification n now))
   \<and> present (item_data (newNotification n now))
   \<and> (\<forall>x \<in> set (notificationHistory (addToHistory n now (s\<lparr>notificationHistory := []\<rparr>))).
        present (item_title x) \<and> present (item_body x) \<and> present (item_data x))
   \<and> (\<forall>x \<in> set (notificationHistory (snd (run initial_state evs))).
        present (item_title x) \<and> present (item_body x) \<and> present (item_data x))
   \<and> (\<forall>x \<in> set (notificationHistory (snd (session before e after))).
        present (item_title x) \<and> present (item_body x) \<and> present (item_data x))"
proof -
  have p: "present (item_title (newNotification m t)) \<and> present (item_body (newNotification m t))
      \<and> present (item_data (newNotification m t))" for m t
    using newNotification_truthy [of m t] by (simp add: truthy_present)
  have q: "present (item_title x) \<and> present (item_body x) \<and> present (item_data x)"
    if "x \<in> set (last_ten xs)" for x xs
    using in_last_ten [OF that] p by auto
  have r: "notificationHistory (snd (run initial_state evs)) =
             last_ten (received_since_clear evs [])"
    using history_initial by (rule run_history)
  have d: "(title (content (request n)) \<in> {JUndefined, JNull, JStr []} \<longrightarrow>
      item_title (newNotification n now) = JStr ''No Title'')
   \<and> (body (content (request n)) \<in> {JUndefined, JNull, JStr []} \<longrightarrow>
      item_body (newNotification n now) = JStr ''No Body'')
   \<and> (data (content (request n)) \<in> {JUndefined, JNull} \<longrightarrow>
      item_data (newNotification n now) = JObj [])"
    by (auto simp: newNotification_def js_or_def)
  show ?thesis
    using d p [of n now] q
    by (simp add: r session_history history_addToHistory)
qed

text \<open>An instance of the statement above at a concrete input.\<close>

theorem stored_fields_populated_witness:
  "title (content (request untitled_notification)) \<in> {JUndefined, JNull, JStr []}
   \<and> body (content (request untitled_notification)) \<in> {JUndefined, JNull, JStr []}
   \<and> data (content (request untitled_notification)) \<in> {JUndefined, JNull}
   \<and> item_title (newNotification untitled_notification ''10:00'') = JStr ''No Title''
   \<and> item_body (newNotification untitled_notification ''10:00'') = JStr ''No Body''
   \<and> item_data (newNotification untitled_notification ''10:00'') = JObj []
   \<and> newNotification untitled_notification ''10:00'' \<in> set (notificationHistory
        (snd (run initial_state [NotificationReceived untitled_notification ''10:00''])))
   \<and> present (item_title (newNotification untitled_notification ''10:00''))"
proof -
  have h: "title (content (request untitled_notification)) \<in> {JUndefined, JNull, JStr []}"
    "body (content (request untitled_notification)) \<in> {JUndefined, JNull, JStr []}"
    "data (content (request untitled_notification)) \<in> {JUndefined, JNull}"
    by (simp_all add: untitled_notification_def)
  have m: "newNotification untitled_notification ''10:00'' \<in> set (notificationHistory
        (snd (run initial_state [NotificationReceived untitled_notification ''10:00''])))"
    by (simp add: notificationListener_def addToHistory_def)
  show ?thesis
    using h m stored_fields_populated [where n = untitled_notification and now = "''10:00''"
        and evs = "[NotificationReceived untitled_notification ''10:00'']"]
    by blast
qed

end
